theory Spec2Isabelle
  imports Complex_Main
begin

section \<open>Exceptions and results\<close>

text \<open>
  The exceptions that Python, numpy, scipy, soundfile and acoular raise while the script
  of \<^verbatim>\<open>test.py\<close> runs are values of \<open>pyexc\<close>. The script defines no exception
  class of its own; \<open>InvalidRateError\<close> and \<open>GeometryMismatchError\<close> are the two
  failures that the specification names for the resampler and the beamformer. A function
  of the script returns \<open>error + 'a\<close>, with \<open>Inl\<close> for a raised exception.
\<close>

datatype pyexc = ValueError | ZeroDivisionError | LibraryError

datatype error = Raised pyexc | InvalidRateError | GeometryMismatchError

section \<open>Arrays and floating-point results\<close>

text \<open>
  A two-dimensional numpy array of shape \<open>(length rows, ncols)\<close>: one row per frame, one
  column per channel. The column count is a field of its own, since an array without
  rows still has one. Sample values are finite floats, read as reals: rounding and
  overflow are left out, while a division by zero yields the IEEE value that numpy
  stores (\<open>nan\<close>, \<open>inf\<close> or \<open>-inf\<close>), which is what \<open>npfloat\<close> is for.
\<close>

record ndarray =
  ncols :: nat
  rows :: "real list list"

definition wf_array :: "ndarray \<Rightarrow> bool" where
  "wf_array a \<longleftrightarrow> list_all (\<lambda>r. length r = ncols a) (rows a)"

text \<open>\<^verbatim>\<open>len(a)\<close> and the slice \<^verbatim>\<open>a[:k]\<close> of a two-dimensional array.\<close>

definition len :: "ndarray \<Rightarrow> nat" where
  "len a = length (rows a)"

definition slice_to :: "nat \<Rightarrow> ndarray \<Rightarrow> ndarray" where
  "slice_to k a = a\<lparr>rows := take k (rows a)\<rparr>"

datatype npfloat = Num real | PosInf | NegInf | NaN

text \<open>Float division of a finite value by a finite value.\<close>

definition np_divide :: "real \<Rightarrow> real \<Rightarrow> npfloat" where
  "np_divide x m =
     (if m \<noteq> 0 then Num (x / m)
      else if x = 0 then NaN
      else if 0 < x then PosInf
      else NegInf)"

text \<open>
  \<^verbatim>\<open>np.max\<close> over all entries of an array: it raises \<open>ValueError\<close> on an array without
  entries and returns \<open>nan\<close> as soon as one entry is \<open>nan\<close>.
\<close>

fun np_max :: "real list \<Rightarrow> pyexc + real" where
  "np_max [] = Inl ValueError"
| "np_max (x # xs) = Inr (fold max xs x)"

fun fmax :: "npfloat \<Rightarrow> npfloat \<Rightarrow> npfloat" where
  "fmax NaN y = NaN"
| "fmax x NaN = NaN"
| "fmax PosInf y = PosInf"
| "fmax x PosInf = PosInf"
| "fmax NegInf y = y"
| "fmax x NegInf = x"
| "fmax (Num x) (Num y) = Num (max x y)"

fun np_max_fl :: "npfloat list \<Rightarrow> pyexc + npfloat" where
  "np_max_fl [] = Inl ValueError"
| "np_max_fl (x # xs) = Inr (fold fmax xs x)"

text \<open>The comparison \<^verbatim>\<open>x > threshold\<close>; every comparison with \<open>nan\<close> is false.\<close>

fun np_greater :: "npfloat \<Rightarrow> real \<Rightarrow> bool" where
  "np_greater (Num x) t \<longleftrightarrow> t < x"
| "np_greater PosInf t \<longleftrightarrow> True"
| "np_greater NegInf t \<longleftrightarrow> False"
| "np_greater NaN t \<longleftrightarrow> False"

section \<open>Cross-correlation in valid mode\<close>

text \<open>
  \<^verbatim>\<open>scipy.signal.correlate(in1, in2, mode='valid')\<close> on two-dimensional real arrays.
  When \<open>in1\<close> is at least as large as \<open>in2\<close> along both axes, entry \<open>(i, j)\<close> of the result
  is the sum of \<open>in1[i + a, j + b] * in2[a, b]\<close> over all entries \<open>(a, b)\<close> of \<open>in2\<close>, for
  every offset at which \<open>in2\<close> lies inside \<open>in1\<close>. When \<open>in2\<close> is the larger one, scipy
  swaps the operands and reverses the result along both axes. When neither contains the
  other it raises \<open>ValueError\<close>.
\<close>

definition dot :: "real list \<Rightarrow> real list \<Rightarrow> real" where
  "dot xs ys = sum_list (map2 (*) xs ys)"

definition corr_at :: "real list list \<Rightarrow> real list list \<Rightarrow> nat \<Rightarrow> nat \<Rightarrow> real" where
  "corr_at A B i j = sum_list (map2 (\<lambda>ra rb. dot (drop j ra) rb) (drop i A) B)"

definition correlate_direct :: "ndarray \<Rightarrow> ndarray \<Rightarrow> ndarray" where
  "correlate_direct a b =
     \<lparr>ncols = ncols a - ncols b + 1,
      rows = map (\<lambda>i. map (\<lambda>j. corr_at (rows a) (rows b) i j) [0..<ncols a - ncols b + 1])
                 [0..<len a - len b + 1]\<rparr>"

definition reverse_both :: "ndarray \<Rightarrow> ndarray" where
  "reverse_both a = a\<lparr>rows := rev (map rev (rows a))\<rparr>"

definition correlate_valid :: "ndarray \<Rightarrow> ndarray \<Rightarrow> pyexc + ndarray" where
  "correlate_valid in1 in2 =
     (if len in2 \<le> len in1 \<and> ncols in2 \<le> ncols in1 then Inr (correlate_direct in1 in2)
      else if len in1 \<le> len in2 \<and> ncols in1 \<le> ncols in2
        then Inr (reverse_both (correlate_direct in2 in1))
      else Inl ValueError)"

section \<open>Signals and the matcher\<close>

text \<open>An \<^verbatim>\<open>acoular.TimeSamples\<close> object, as far as the script reads it.\<close>

record TimeSamples =
  data :: ndarray
  sample_freq :: real

text \<open>Lines 63 to 70 of \<^verbatim>\<open>match_car_sound\<close>: truncation and correlation.\<close>

definition match_correlation :: "TimeSamples \<Rightarrow> TimeSamples \<Rightarrow> pyexc + ndarray" where
  "match_correlation reference_ts test_ts =
     (let ref_data = data reference_ts;
          test_data = data test_ts;
          min_length = min (len ref_data) (len test_data);
          ref_data = slice_to min_length ref_data;
          test_data = slice_to min_length test_data
      in correlate_valid test_data ref_data)"

text \<open>Line 71: \<^verbatim>\<open>correlation /= np.max(correlation)\<close>.\<close>

definition normalize_by_max :: "ndarray \<Rightarrow> pyexc + npfloat list list" where
  "normalize_by_max correlation =
     (case np_max (concat (rows correlation)) of
        Inl e \<Rightarrow> Inl e
      | Inr m \<Rightarrow> Inr (map (map (\<lambda>x. np_divide x m)) (rows correlation)))"

text \<open>Lines 70 to 73 together: the maximum of the normalized correlation.\<close>

definition normalized_max :: "TimeSamples \<Rightarrow> TimeSamples \<Rightarrow> pyexc + npfloat" where
  "normalized_max reference_ts test_ts =
     (case match_correlation reference_ts test_ts of
        Inl e \<Rightarrow> Inl e
      | Inr correlation \<Rightarrow>
          (case normalize_by_max correlation of
             Inl e \<Rightarrow> Inl e
           | Inr normalized \<Rightarrow> np_max_fl (concat normalized)))"

definition match_car_sound :: "TimeSamples \<Rightarrow> TimeSamples \<Rightarrow> real \<Rightarrow> error + bool" where
  "match_car_sound reference_ts test_ts threshold =
     (case normalized_max reference_ts test_ts of
        Inl e \<Rightarrow> Inl (Raised e)
      | Inr peak \<Rightarrow> Inr (np_greater peak threshold))"

section \<open>The resampler\<close>

text \<open>
  Python's \<^verbatim>\<open>round\<close> of a float: the nearest integer, a tie going to the even one.
\<close>

definition py_round :: "real \<Rightarrow> int" where
  "py_round x =
     (let f = \<lfloor>x\<rfloor>; d = x - of_int f
      in if d < 1 / 2 then f
         else if 1 / 2 < d then f + 1
         else if even f then f
         else f + 1)"

text \<open>
  \<^verbatim>\<open>scipy.signal.resample(data, num)\<close> is a library routine built on the fast Fourier
  transform; the script only passes it the array and the new frame count. It is a
  parameter here. The library documents that its result has \<open>num\<close> samples along axis 0,
  leaves the other axis alone and resamples every column by itself. \<open>resample_shape\<close>
  asks this of a routine for a count of at least 1 on an array with at least one frame.
  What the routine does with the count 0, with a negative count or with an array without
  frames is left open: it may raise, or return an array of another length.
\<close>

type_synonym resampler = "ndarray \<Rightarrow> int \<Rightarrow> pyexc + ndarray"

text \<open>Channel \<open>j\<close> of an array, as an array of one column.\<close>

definition channel :: "nat \<Rightarrow> ndarray \<Rightarrow> ndarray" where
  "channel j x = \<lparr>ncols = 1, rows = map (\<lambda>r. [r ! j]) (rows x)\<rparr>"

definition resample_shape :: "resampler \<Rightarrow> bool" where
  "resample_shape f \<longleftrightarrow>
     (\<forall>x num. 1 \<le> num \<and> 0 < len x \<and> wf_array x \<longrightarrow>
        (\<exists>y. f x num = Inr y \<and> int (len y) = num \<and> ncols y = ncols x \<and> wf_array y
           \<and> (\<forall>j<ncols x. f (channel j x) num = Inr (channel j y))))"

definition resample_acoular_ts :: "resampler \<Rightarrow> TimeSamples \<Rightarrow> real \<Rightarrow> error + TimeSamples" where
  "resample_acoular_ts scipy_resample ts target_fs =
     (let d = data ts;
          fs = sample_freq ts
      in if fs \<noteq> target_fs then
           (if fs = 0 then Inl (Raised ZeroDivisionError)
            else
              (let num_samples = py_round (real (len d) * target_fs / fs)
               in case scipy_resample d num_samples of
                    Inl e \<Rightarrow> Inl (Raised e)
                  | Inr data_resampled \<Rightarrow>
                      Inr \<lparr>data = data_resampled, sample_freq = target_fs\<rparr>))
         else Inr ts)"

text \<open>
  The same function with the objects of the program made explicit, to say what a call
  does to the signal it is given. The state is the list of the \<^verbatim>\<open>TimeSamples\<close> objects
  that exist, an object is known by its position in it, and the constructor call of line
  46 appends the new object. The function assigns to no attribute of \<open>ts\<close> and to no
  element of its array, and the library routine returns a new array.
\<close>

type_synonym objects = "TimeSamples list"

definition resample_acoular_ts_obj ::
  "resampler \<Rightarrow> objects \<Rightarrow> nat \<Rightarrow> real \<Rightarrow> objects \<times> (error + nat)" where
  "resample_acoular_ts_obj scipy_resample objs ts target_fs =
     (let d = data (objs ! ts);
          fs = sample_freq (objs ! ts)
      in if fs \<noteq> target_fs then
           (if fs = 0 then (objs, Inl (Raised ZeroDivisionError))
            else
              (let num_samples = py_round (real (len d) * target_fs / fs)
               in case scipy_resample d num_samples of
                    Inl e \<Rightarrow> (objs, Inl (Raised e))
                  | Inr data_resampled \<Rightarrow>
                      (objs @ [\<lparr>data = data_resampled, sample_freq = target_fs\<rparr>],
                       Inr (length objs))))
         else (objs, Inr ts))"

section \<open>The beamformer and the direction of the peak\<close>

text \<open>
  \<^verbatim>\<open>np.argmax(Lm, axis=None)\<close>: the index, in the flattened row-major array, of the
  first entry that no other entry exceeds; \<open>ValueError\<close> on an array without entries.
\<close>

fun argmax_scan :: "real list \<Rightarrow> nat \<Rightarrow> nat \<Rightarrow> real \<Rightarrow> nat" where
  "argmax_scan [] i best v = best"
| "argmax_scan (x # xs) i best v =
     (if v < x then argmax_scan xs (Suc i) i x else argmax_scan xs (Suc i) best v)"

fun np_argmax :: "real list \<Rightarrow> pyexc + nat" where
  "np_argmax [] = Inl ValueError"
| "np_argmax (x # xs) = Inr (argmax_scan xs 1 0 x)"

text \<open>\<^verbatim>\<open>np.unravel_index(k, shape)\<close> for a two-dimensional shape.\<close>

definition unravel_index :: "nat \<Rightarrow> nat \<times> nat \<Rightarrow> nat \<times> nat" where
  "unravel_index k shape = (k div snd shape, k mod snd shape)"

record RectGrid =
  x_min :: real
  x_max :: real
  y_min :: real
  y_max :: real
  z :: real
  increment :: real

text \<open>
  What the script asks of acoular: \<open>MicGeom\<close> reads the microphone positions from the
  geometry file (line 89), and \<open>power_map\<close> stands for lines 88 and 90 to 93, from the
  power spectra to the map \<open>Lm\<close> of levels in dB over the grid. Both are parameters.
\<close>

type_synonym mic_geom = "(real \<times> real \<times> real) list"

record acoular =
  MicGeom :: "string \<Rightarrow> pyexc + mic_geom"
  power_map :: "TimeSamples \<Rightarrow> mic_geom \<Rightarrow> RectGrid \<Rightarrow> real \<Rightarrow> pyexc + ndarray"

text \<open>Lines 94 to 96: from the map to the label.\<close>

definition direction_of_map :: "ndarray \<Rightarrow> error + string" where
  "direction_of_map Lm =
     (case np_argmax (concat (rows Lm)) of
        Inl e \<Rightarrow> Inl (Raised e)
      | Inr k \<Rightarrow>
          (let max_indices = unravel_index k (len Lm, ncols Lm);
               x_direction = int (snd max_indices) - int (ncols Lm div 2)
           in Inr (if 0 < x_direction then ''left-to-right'' else ''right-to-left'')))"

definition beamform_and_detect_direction ::
  "acoular \<Rightarrow> TimeSamples \<Rightarrow> string \<Rightarrow> RectGrid \<Rightarrow> real \<Rightarrow> error + string" where
  "beamform_and_detect_direction lib test_ts mic_array_geometry grid ref_freq =
     (case MicGeom lib mic_array_geometry of
        Inl e \<Rightarrow> Inl (Raised e)
      | Inr mg \<Rightarrow>
          (case power_map lib test_ts mg grid ref_freq of
             Inl e \<Rightarrow> Inl (Raised e)
           | Inr Lm \<Rightarrow> direction_of_map Lm))"

section \<open>The loader and the script's main function\<close>

text \<open>
  \<^verbatim>\<open>sf.read\<close> returns the samples, one-dimensional for a mono file, and the sample
  rate. The file system is a parameter.
\<close>

datatype sf_data = Mono "real list" | Multi ndarray

type_synonym sf_reader = "string \<Rightarrow> pyexc + sf_data \<times> real"

definition load_audio_from_wav :: "sf_reader \<Rightarrow> string \<Rightarrow> error + TimeSamples" where
  "load_audio_from_wav sf_read wav_file =
     (case sf_read wav_file of
        Inl e \<Rightarrow> Inl (Raised e)
      | Inr (d, samplerate) \<Rightarrow>
          Inr \<lparr>data = (case d of
                         Mono xs \<Rightarrow> \<lparr>ncols = 1, rows = map (\<lambda>x. [x]) xs\<rparr>
                       | Multi a \<Rightarrow> a),
               sample_freq = samplerate\<rparr>)"

text \<open>
  Everything outside the script that \<^verbatim>\<open>main\<close> touches: the files, the two libraries,
  the clock read by \<^verbatim>\<open>time.time()\<close> and \<^verbatim>\<open>os.path.basename\<close>.
\<close>

record world =
  sf_read :: sf_reader
  scipy_resample :: resampler
  acoular_lib :: acoular
  now :: real
  basename :: "string \<Rightarrow> string"

text \<open>The three \<^verbatim>\<open>print\<close> calls, by their arguments.\<close>

datatype printed_line =
  CarDetected string string
| TotalCars nat
| DetectionTimes "real list"

record report =
  cars_detected :: nat
  detection_times :: "real list"
  printed :: "printed_line list"

definition search_grid :: RectGrid where
  "search_grid = \<lparr>x_min = - 1, x_max = 1, y_min = - 1, y_max = 1, z = 3 / 10, increment = 1 / 20\<rparr>"

text \<open>Lines 110 to 114: both signals, the test signal at the reference's rate.\<close>

definition main_signals :: "world \<Rightarrow> string \<Rightarrow> string \<Rightarrow> error + TimeSamples \<times> TimeSamples" where
  "main_signals w stationary_car_wav_file input_wav_file =
     (case load_audio_from_wav (sf_read w) stationary_car_wav_file of
        Inl e \<Rightarrow> Inl e
      | Inr reference_ts \<Rightarrow>
          (case load_audio_from_wav (sf_read w) input_wav_file of
             Inl e \<Rightarrow> Inl e
           | Inr test_ts \<Rightarrow>
               (case resample_acoular_ts (scipy_resample w) test_ts (sample_freq reference_ts) of
                  Inl e \<Rightarrow> Inl e
                | Inr test_ts \<Rightarrow> Inr (reference_ts, test_ts))))"

text \<open>Lines 123 and 124: the two lines printed at the end.\<close>

definition report_totals :: "report \<Rightarrow> report" where
  "report_totals r =
     r\<lparr>printed := printed r @ [TotalCars (cars_detected r), DetectionTimes (detection_times r)]\<rparr>"

definition main :: "world \<Rightarrow> string \<Rightarrow> string \<Rightarrow> string \<Rightarrow> error + report" where
  "main w stationary_car_wav_file input_wav_file mic_array_geometry =
     (let r = \<lparr>cars_detected = 0, detection_times = [], printed = []\<rparr>
      in case main_signals w stationary_car_wav_file input_wav_file of
           Inl e \<Rightarrow> Inl e
         | Inr (reference_ts, test_ts) \<Rightarrow>
             (case match_car_sound reference_ts test_ts (7 / 10) of
                Inl e \<Rightarrow> Inl e
              | Inr matched \<Rightarrow>
                  if matched then
                    (case beamform_and_detect_direction (acoular_lib w) test_ts
                            mic_array_geometry search_grid 8000 of
                       Inl e \<Rightarrow> Inl e
                     | Inr direction \<Rightarrow>
                         Inr (report_totals
                               \<lparr>cars_detected = cars_detected r + 1,
                                detection_times = detection_times r @ [now w],
                                printed = printed r @
                                  [CarDetected (basename w input_wav_file) direction]\<rparr>))
                  else Inr (report_totals r)))"

section \<open>Concrete inputs\<close>

text \<open>Small signals on which the theorems below are run.\<close>

definition mono_ref :: TimeSamples where
  "mono_ref = \<lparr>data = \<lparr>ncols = 1, rows = [[1]]\<rparr>, sample_freq = 16000\<rparr>"

definition empty_stereo :: TimeSamples where
  "empty_stereo = \<lparr>data = \<lparr>ncols = 2, rows = []\<rparr>, sample_freq = 16000\<rparr>"

definition neg_stereo :: TimeSamples where
  "neg_stereo = \<lparr>data = \<lparr>ncols = 2, rows = [[- 2, - 1]]\<rparr>, sample_freq = 16000\<rparr>"

definition silent_mono :: TimeSamples where
  "silent_mono = \<lparr>data = \<lparr>ncols = 1, rows = [[0]]\<rparr>, sample_freq = 16000\<rparr>"


definition stereo_two :: TimeSamples where
  "stereo_two = \<lparr>data = \<lparr>ncols = 2, rows = [[1, 2], [3, 4]]\<rparr>, sample_freq = 16000\<rparr>"

definition mono_8k :: TimeSamples where
  "mono_8k = \<lparr>data = \<lparr>ncols = 1, rows = [[1]]\<rparr>, sample_freq = 8000\<rparr>"

definition one_frame_44k :: TimeSamples where
  "one_frame_44k = \<lparr>data = \<lparr>ncols = 1, rows = [[1]]\<rparr>, sample_freq = 44100\<rparr>"

text \<open>
  Resamplers to run the theorems on. All three raise \<open>ValueError\<close> on a negative count,
  as numpy does for a negative dimension, and on an array without frames.
  \<open>fill_resample\<close> fills the result with zeros and raises on the count 0;
  \<open>pad_resample\<close> does the same but answers the count 0 with one frame;
  \<open>hold_resample\<close> repeats or drops frames of its input and raises on the count 0.
\<close>

definition fill_resample :: resampler where
  "fill_resample x num =
     (if num \<le> 0 \<or> len x = 0 then Inl ValueError
      else Inr \<lparr>ncols = ncols x, rows = replicate (nat num) (replicate (ncols x) 0)\<rparr>)"

definition pad_resample :: resampler where
  "pad_resample x num =
     (if num < 0 \<or> len x = 0 then Inl ValueError
      else Inr \<lparr>ncols = ncols x,
               rows = replicate (max 1 (nat num)) (replicate (ncols x) 0)\<rparr>)"

definition hold_resample :: resampler where
  "hold_resample x num =
     (if num \<le> 0 \<or> len x = 0 then Inl ValueError
      else Inr \<lparr>ncols = ncols x,
               rows = map (\<lambda>i. rows x ! (i * len x div nat num)) [0..<nat num]\<rparr>)"

text \<open>
  Microphone geometries, power maps and an acoular to run the theorems on. The map
  \<open>peak_map\<close> has its maximum 5 three times, first in row 0 at the centre column;
  \<open>right_map\<close> has its first maximum in the last column. \<open>checking_acoular\<close> returns
  the given geometry and map, and raises \<open>ValueError\<close> when the channel count of the
  signal differs from the number of microphones.
\<close>

definition one_mic :: mic_geom where
  "one_mic = [(0, 0, 0)]"

definition two_mics :: mic_geom where
  "two_mics = [(0, 0, 0), (1, 0, 0)]"

definition peak_map :: ndarray where
  "peak_map = \<lparr>ncols = 3, rows = [[0, 5, 1], [5, 5, 2]]\<rparr>"

definition right_map :: ndarray where
  "right_map = \<lparr>ncols = 3, rows = [[0, 1, 7], [7, 7, 7]]\<rparr>"

definition checking_acoular :: "mic_geom \<Rightarrow> ndarray \<Rightarrow> acoular" where
  "checking_acoular mg Lm =
     \<lparr>MicGeom = (\<lambda>path. Inr mg),
      power_map = (\<lambda>ts g grid f.
         if length g \<noteq> ncols (data ts) then Inl ValueError else Inr Lm)\<rparr>"

definition tone_world :: world where
  "tone_world =
     \<lparr>sf_read = (\<lambda>path. Inr (Mono [1], 16000)),
      scipy_resample = fill_resample,
      acoular_lib = checking_acoular one_mic right_map,
      now = 1730000000,
      basename = (\<lambda>path. path)\<rparr>"

definition silent_world :: world where
  "silent_world = tone_world\<lparr>sf_read := (\<lambda>path. Inr (Mono [0], 16000))\<rparr>"

section \<open>The claims' own words\<close>


text \<open>
  The cell that claim C5 selects, as it is worded: a cell of maximum value, the first one
  in row-major order. \<open>first_max_index\<close> says the same of an index into the
  flattened map.
\<close>

definition first_max_index :: "real list \<Rightarrow> nat \<Rightarrow> bool" where
  "first_max_index xs k \<longleftrightarrow>
     k < length xs \<and> (\<forall>n\<in>{..<length xs}. xs ! n \<le> xs ! k) \<and> (\<forall>n\<in>{..<k}. xs ! n < xs ! k)"

definition first_max_cell :: "ndarray \<Rightarrow> nat \<Rightarrow> nat \<Rightarrow> bool" where
  "first_max_cell Lm i j \<longleftrightarrow>
     i < len Lm \<and> j < ncols Lm \<and>
     (\<forall>i'\<in>{..<len Lm}. \<forall>j'\<in>{..<ncols Lm}.
        rows Lm ! i' ! j' \<le> rows Lm ! i ! j \<and>
        (i' < i \<or> (i' = i \<and> j' < j) \<longrightarrow> rows Lm ! i' ! j' < rows Lm ! i ! j))"

section \<open>Maxima and normalization\<close>

lemma fold_max_Max: "fold max xs x = Max (insert x (set xs))"
  using Max.set_eq_fold [of x xs] by simp

lemma np_max_Max: "xs \<noteq> [] \<Longrightarrow> np_max xs = Inr (Max (set xs))"
  by (cases xs) (simp_all add: fold_max_Max)

lemma fold_fmax_NaN: "fold fmax xs NaN = NaN"
proof (induction xs)
  case Nil
  show ?case by simp
next
  case (Cons x xs)
  have "fmax x NaN = NaN" by (cases x) simp_all
  with Cons show ?case by simp
qed

lemma fold_fmax_has_NaN: "NaN \<in> set xs \<Longrightarrow> fold fmax xs a = NaN"
proof (induction xs arbitrary: a)
  case Nil
  then show ?case by simp
next
  case (Cons x xs)
  show ?case
  proof (cases "x = NaN")
    case True
    then show ?thesis by (simp add: fold_fmax_NaN)
  next
    case False
    with Cons show ?thesis by simp
  qed
qed

lemma np_max_fl_NaN: "NaN \<in> set xs \<Longrightarrow> np_max_fl xs = Inr NaN"
proof (cases xs)
  case Nil
  assume "NaN \<in> set xs"
  with Nil show ?thesis by simp
next
  case (Cons x ys)
  assume h: "NaN \<in> set xs"
  show ?thesis
  proof (cases "x = NaN")
    case True
    with Cons show ?thesis by (simp add: fold_fmax_NaN)
  next
    case False
    with h Cons have "NaN \<in> set ys" by simp
    then show ?thesis using Cons by (simp add: fold_fmax_has_NaN)
  qed
qed

lemma fold_fmax_Num: "fold fmax (map Num ys) (Num y) = Num (fold max ys y)"
  by (induction ys arbitrary: y) simp_all

lemma np_max_fl_Num: "ys \<noteq> [] \<Longrightarrow> np_max_fl (map Num ys) = Inr (Num (Max (set ys)))"
  by (cases ys) (simp_all add: fold_fmax_Num fold_max_Max)

lemma peak_zero:
  assumes "xs \<noteq> []" and "Max (set xs) = 0"
  shows "np_max_fl (map (\<lambda>x. np_divide x (Max (set xs))) xs) = Inr NaN"
proof -
  have "Max (set xs) \<in> set xs" using assms(1) by simp
  then have "0 \<in> set xs" using assms(2) by simp
  then have "np_divide 0 0 \<in> set (map (\<lambda>x. np_divide x 0) xs)" by force
  then have "NaN \<in> set (map (\<lambda>x. np_divide x (Max (set xs))) xs)"
    using assms(2) by (simp add: np_divide_def)
  then show ?thesis by (rule np_max_fl_NaN)
qed

lemma peak_nonzero_divisor:
  assumes "xs \<noteq> []" and "m \<noteq> 0"
  shows "np_max_fl (map (\<lambda>x. np_divide x m) xs) = Inr (Num (Max ((\<lambda>x. x / m) ` set xs)))"
proof -
  have eq: "map (\<lambda>x. np_divide x m) xs = map Num (map (\<lambda>x. x / m) xs)"
    using assms(2) by (simp add: np_divide_def)
  have "np_max_fl (map Num (map (\<lambda>x. x / m) xs)) = Inr (Num (Max (set (map (\<lambda>x. x / m) xs))))"
    by (rule np_max_fl_Num) (simp add: assms(1))
  then show ?thesis unfolding eq by simp
qed

lemma peak_positive:
  assumes "xs \<noteq> []" and "0 < Max (set xs)"
  shows "np_max_fl (map (\<lambda>x. np_divide x (Max (set xs))) xs) = Inr (Num 1)"
proof -
  let ?m = "Max (set xs)"
  have mono: "mono (\<lambda>x. x / ?m)"
    using assms(2) by (intro monoI) (simp add: divide_right_mono)
  have "Max ((\<lambda>x. x / ?m) ` set xs) = ?m / ?m"
    using mono_Max_commute [OF mono, of "set xs"] assms(1) by simp
  also have "\<dots> = 1" using assms(2) by simp
  finally show ?thesis using peak_nonzero_divisor [OF assms(1), of ?m] assms(2) by simp
qed

lemma peak_single:
  assumes "c \<noteq> 0"
  shows "np_max_fl (map (\<lambda>x. np_divide x (Max (set [c]))) [c]) = Inr (Num 1)"
  using assms by (simp add: np_divide_def)


lemma len_slice_to: "len (slice_to k a) = min k (len a)"
  by (simp add: len_def slice_to_def min.commute)

lemma match_correlation_wide:
  assumes "ncols (data reference_ts) \<le> ncols (data test_ts)"
  shows "match_correlation reference_ts test_ts =
     Inr \<lparr>ncols = ncols (data test_ts) - ncols (data reference_ts) + 1,
          rows = [map (\<lambda>j. corr_at
                     (take (min (len (data reference_ts)) (len (data test_ts))) (rows (data test_ts)))
                     (take (min (len (data reference_ts)) (len (data test_ts))) (rows (data reference_ts)))
                     0 j)
                  [0..<ncols (data test_ts) - ncols (data reference_ts) + 1]]\<rparr>"
  using assms
  by (simp add: match_correlation_def correlate_valid_def correlate_direct_def Let_def
      len_slice_to) (simp add: slice_to_def len_def)

lemma match_correlation_narrow:
  assumes "ncols (data test_ts) < ncols (data reference_ts)"
  shows "match_correlation reference_ts test_ts =
     Inr \<lparr>ncols = ncols (data reference_ts) - ncols (data test_ts) + 1,
          rows = [rev (map (\<lambda>j. corr_at
                     (take (min (len (data reference_ts)) (len (data test_ts))) (rows (data reference_ts)))
                     (take (min (len (data reference_ts)) (len (data test_ts))) (rows (data test_ts)))
                     0 j)
                  [0..<ncols (data reference_ts) - ncols (data test_ts) + 1])]\<rparr>"
  using assms
  by (simp add: match_correlation_def correlate_valid_def correlate_direct_def Let_def
      len_slice_to reverse_both_def) (simp add: slice_to_def len_def)

lemma match_correlation_returns:
  "\<exists>c. match_correlation reference_ts test_ts = Inr c \<and> concat (rows c) \<noteq> []"
proof (cases "ncols (data reference_ts) \<le> ncols (data test_ts)")
  case True
  then show ?thesis by (simp add: match_correlation_wide)
next
  case False
  then show ?thesis by (simp add: match_correlation_narrow)
qed

lemma normalized_max_flat:
  assumes "match_correlation reference_ts test_ts = Inr c" and "concat (rows c) \<noteq> []"
  shows "normalized_max reference_ts test_ts =
     np_max_fl (map (\<lambda>x. np_divide x (Max (set (concat (rows c))))) (concat (rows c)))"
  using assms np_max_Max [OF assms(2)]
  by (simp add: normalized_max_def normalize_by_max_def map_concat)


lemma corr_at_Nil: "corr_at [] [] i j = 0"
  by (simp add: corr_at_def)

lemma match_car_sound_flat:
  assumes "match_correlation reference_ts test_ts = Inr c" and "concat (rows c) \<noteq> []"
    and "np_max_fl (map (\<lambda>x. np_divide x (Max (set (concat (rows c))))) (concat (rows c))) = Inr p"
  shows "match_car_sound reference_ts test_ts threshold = Inr (np_greater p threshold)"
  using normalized_max_flat [OF assms(1,2)] assms(3) by (simp add: match_car_sound_def)

lemma zero_frames_correlation:
  assumes "len (data reference_ts) = 0 \<or> len (data test_ts) = 0"
  shows "\<exists>c. match_correlation reference_ts test_ts = Inr c \<and> concat (rows c) \<noteq> []
            \<and> set (concat (rows c)) = {0}"
proof -
  have n: "min (len (data reference_ts)) (len (data test_ts)) = 0"
    using assms by auto
  show ?thesis
  proof (cases "ncols (data reference_ts) \<le> ncols (data test_ts)")
    case True
    show ?thesis
      unfolding match_correlation_wide [OF True] n by (auto simp: corr_at_Nil)
  next
    case False
    then have lt: "ncols (data test_ts) < ncols (data reference_ts)" by simp
    show ?thesis
      unfolding match_correlation_narrow [OF lt] n by (auto simp: corr_at_Nil)
  qed
qed

section \<open>The matcher on signals without frames\<close>

text \<open>
  C2: when the reference or the test signal has no frames, both are empty after the
  truncation, every correlation value is the empty sum 0, the division by the maximum
  is 0 / 0 = nan, and the comparison of nan with the threshold is false:
  \<^verbatim>\<open>match_car_sound\<close> returns false and raises nothing.
\<close>

theorem matcher_zero_frames:
  assumes "len (data reference_ts) = 0 \<or> len (data test_ts) = 0"
  shows "match_car_sound reference_ts test_ts threshold = Inr False"
proof -
  obtain c where c: "match_correlation reference_ts test_ts = Inr c"
    and ne: "concat (rows c) \<noteq> []" and z: "set (concat (rows c)) = {0}"
    using zero_frames_correlation [OF assms] by blast
  have m: "Max (set (concat (rows c))) = 0" using z by simp
  have "np_max_fl (map (\<lambda>x. np_divide x (Max (set (concat (rows c))))) (concat (rows c)))
          = Inr NaN"
    by (rule peak_zero [OF ne m])
  from match_car_sound_flat [OF c ne this] show ?thesis by simp
qed

theorem matcher_zero_frames_witness:
  "(len (data mono_ref) = 0 \<or> len (data empty_stereo) = 0)
   \<and> match_car_sound mono_ref empty_stereo (7 / 10) = Inr False"
proof -
  have h: "len (data mono_ref) = 0 \<or> len (data empty_stereo) = 0"
    by (simp add: empty_stereo_def len_def)
  show ?thesis using h matcher_zero_frames [OF h, of "7 / 10"] by simp
qed

section \<open>The normalized maximum\<close>

lemma match_correlation_same_cols:
  assumes "ncols (data reference_ts) = ncols (data test_ts)"
  shows "match_correlation reference_ts test_ts =
     Inr \<lparr>ncols = 1,
          rows = [[corr_at
                     (take (min (len (data reference_ts)) (len (data test_ts))) (rows (data test_ts)))
                     (take (min (len (data reference_ts)) (len (data test_ts))) (rows (data reference_ts)))
                     0 0]]\<rparr>"
proof -
  have le: "ncols (data reference_ts) \<le> ncols (data test_ts)" using assms by simp
  show ?thesis unfolding match_correlation_wide [OF le] using assms by simp
qed

text \<open>
  C1, as amended: the correlation is never empty, so its maximum \<open>m\<close> and the maximum
  \<open>p\<close> of the normalized correlation exist. \<open>p\<close> is exactly 1 whenever \<open>m\<close> is
  positive, and also whenever both signals have the same channel count (the correlation
  is then a single value) and that value is not zero. \<^verbatim>\<open>match_car_sound\<close> returns
  true exactly when \<open>p\<close> is greater than the threshold.
\<close>

theorem matcher_normalized_max:
  "\<exists>c m p. match_correlation reference_ts test_ts = Inr c
     \<and> np_max (concat (rows c)) = Inr m
     \<and> normalized_max reference_ts test_ts = Inr p
     \<and> (0 < m \<longrightarrow> p = Num 1)
     \<and> (ncols (data reference_ts) = ncols (data test_ts) \<and> m \<noteq> 0 \<longrightarrow> p = Num 1)
     \<and> match_car_sound reference_ts test_ts threshold = Inr (np_greater p threshold)"
proof -
  obtain c where c: "match_correlation reference_ts test_ts = Inr c"
    and ne: "concat (rows c) \<noteq> []"
    using match_correlation_returns by blast
  define cs where "cs = concat (rows c)"
  define m where "m = Max (set cs)"
  have ne': "cs \<noteq> []" using ne by (simp add: cs_def)
  have mx: "np_max (concat (rows c)) = Inr m"
    using np_max_Max [OF ne] by (simp add: m_def cs_def)
  obtain p where p: "np_max_fl (map (\<lambda>x. np_divide x m) cs) = Inr p"
    using ne' by (cases cs) auto
  have nm: "normalized_max reference_ts test_ts = Inr p"
    using normalized_max_flat [OF c ne] p by (simp add: m_def cs_def)
  have pos: "p = Num 1" if "0 < m"
    using peak_positive [OF ne'] that p by (simp add: m_def)
  have single: "p = Num 1" if eq: "ncols (data reference_ts) = ncols (data test_ts)" and "m \<noteq> 0"
  proof -
    obtain s where "cs = [s]"
      using c match_correlation_same_cols [OF eq] by (auto simp: cs_def)
    then show ?thesis using p that(2) by (simp add: m_def np_divide_def)
  qed
  have "match_car_sound reference_ts test_ts threshold = Inr (np_greater p threshold)"
    using nm by (simp add: match_car_sound_def)
  with c mx nm pos single show ?thesis by blast
qed

theorem matcher_normalized_max_witness:
  "normalized_max mono_ref mono_ref = Inr (Num 1)
   \<and> match_car_sound mono_ref mono_ref (7 / 10) = Inr True"
proof -
  obtain c m p where c: "match_correlation mono_ref mono_ref = Inr c"
    and m: "np_max (concat (rows c)) = Inr m"
    and p: "normalized_max mono_ref mono_ref = Inr p"
    and pos: "0 < m \<longrightarrow> p = Num 1"
    and res: "match_car_sound mono_ref mono_ref (7 / 10) = Inr (np_greater p (7 / 10))"
    using matcher_normalized_max [of mono_ref mono_ref "7 / 10"] by blast
  have "match_correlation mono_ref mono_ref = Inr \<lparr>ncols = 1, rows = [[1]]\<rparr>"
    by (simp add: match_correlation_def correlate_valid_def correlate_direct_def slice_to_def
        len_def corr_at_def dot_def mono_ref_def)
  with c have "c = \<lparr>ncols = 1, rows = [[1]]\<rparr>" by simp
  with m have "m = 1" by simp
  with pos have "p = Num 1" by simp
  with p res show ?thesis by simp
qed


text \<open>
  The claim as worded fails when the channel counts differ and no correlation value is
  positive: a mono reference \<open>[[1]]\<close> against the stereo frame \<open>[[-2, -1]]\<close> gives the
  correlation \<open>[[-2, -1]]\<close>, whose maximum is \<open>-1\<close>; the normalized values are
  \<open>[[2, 1]]\<close> and their maximum is 2.
\<close>

theorem matcher_normalized_max_counterexample:
  "match_correlation mono_ref neg_stereo = Inr \<lparr>ncols = 2, rows = [[- 2, - 1]]\<rparr>
   \<and> normalized_max mono_ref neg_stereo = Inr (Num 2)
   \<and> normalized_max mono_ref neg_stereo \<noteq> Inr (Num 1)"
  by (simp add: normalized_max_def normalize_by_max_def match_correlation_def
      correlate_valid_def correlate_direct_def slice_to_def len_def corr_at_def dot_def
      np_divide_def Let_def mono_ref_def neg_stereo_def)

section \<open>Equal channel counts: one scalar\<close>








section \<open>A signal against itself\<close>

text \<open>
  The statement is about the value the code computes, not about the samples: the sum of
  the squares of samples that are not zero can still be computed as 0 (the square of
  \<open>1e-200\<close> underflows to \<open>0.0\<close>), and then the signal does not match itself.
\<close>

text \<open>
  C4, as amended: the correlation of a signal with itself is a single computed value, and
  for every threshold below 1 \<^verbatim>\<open>match_car_sound\<close> returns true for the signal against
  itself exactly when that computed value is not zero; so it returns true whenever the
  computed self-correlation is not zero, and false when it is zero.
\<close>

theorem matcher_self_match:
  assumes "threshold < 1"
  shows "\<exists>s. match_correlation reference_ts reference_ts = Inr \<lparr>ncols = 1, rows = [[s]]\<rparr>
           \<and> match_car_sound reference_ts reference_ts threshold = Inr (s \<noteq> 0)"
proof -
  let ?A = "rows (data reference_ts)"
  let ?s = "corr_at ?A ?A 0 0"
  have c: "match_correlation reference_ts reference_ts = Inr \<lparr>ncols = 1, rows = [[?s]]\<rparr>"
    using match_correlation_same_cols [of reference_ts reference_ts] by (simp add: len_def)
  have ne: "concat (rows \<lparr>ncols = 1, rows = [[?s]]\<rparr>) \<noteq> []" by simp
  have "match_car_sound reference_ts reference_ts threshold = Inr (?s \<noteq> 0)"
  proof (cases "?s = 0")
    case True
    then have "np_max_fl (map (\<lambda>x. np_divide x (Max (set (concat (rows \<lparr>ncols = 1, rows = [[?s]]\<rparr>)))))
        (concat (rows \<lparr>ncols = 1, rows = [[?s]]\<rparr>))) = Inr NaN"
      by (simp add: np_divide_def)
    from match_car_sound_flat [OF c ne this] True show ?thesis by simp
  next
    case False
    then have "np_max_fl (map (\<lambda>x. np_divide x (Max (set (concat (rows \<lparr>ncols = 1, rows = [[?s]]\<rparr>)))))
        (concat (rows \<lparr>ncols = 1, rows = [[?s]]\<rparr>))) = Inr (Num 1)"
      by (simp add: np_divide_def)
    from match_car_sound_flat [OF c ne this] False assms show ?thesis by simp
  qed
  with c show ?thesis by blast
qed

theorem matcher_self_match_witness:
  "(7 / 10 :: real) < 1
   \<and> match_correlation stereo_two stereo_two = Inr \<lparr>ncols = 1, rows = [[30]]\<rparr>
   \<and> match_car_sound stereo_two stereo_two (7 / 10) = Inr True"
proof -
  have t: "(7 / 10 :: real) < 1" by simp
  obtain s where c: "match_correlation stereo_two stereo_two = Inr \<lparr>ncols = 1, rows = [[s]]\<rparr>"
    and m: "match_car_sound stereo_two stereo_two (7 / 10) = Inr (s \<noteq> 0)"
    using matcher_self_match [OF t, of stereo_two] by blast
  have "match_correlation stereo_two stereo_two = Inr \<lparr>ncols = 1, rows = [[30]]\<rparr>"
    by (simp add: match_correlation_def correlate_valid_def correlate_direct_def slice_to_def
        len_def corr_at_def dot_def Let_def stereo_two_def)
  with c have "s = 30" by simp
  with c m t show ?thesis by simp
qed

text \<open>
  A signal of silence is not empty, and it does not match itself: the only correlation
  value is 0, the division is 0 / 0, and nan is not greater than the threshold.
\<close>

theorem matcher_self_match_counterexample:
  "len (data silent_mono) = 1
   \<and> match_car_sound silent_mono silent_mono (1 / 2) = Inr False"
  by (simp add: match_car_sound_def normalized_max_def normalize_by_max_def
      match_correlation_def correlate_valid_def correlate_direct_def slice_to_def len_def
      corr_at_def dot_def np_divide_def Let_def silent_mono_def)

section \<open>What the resampler returns\<close>

lemma floor_minus_one: "\<lfloor>- 1 :: real\<rfloor> = - 1"
  using floor_of_int [of "- 1", where ?'a = real] by simp

lemma py_round_nonneg: "0 \<le> x \<Longrightarrow> 0 \<le> py_round x"
  by (simp add: py_round_def Let_def)

lemma py_round_nonpos: "x \<le> 0 \<Longrightarrow> py_round x \<le> 0"
proof -
  assume x: "x \<le> 0"
  have f: "\<lfloor>x\<rfloor> \<le> 0" using x by linarith
  show ?thesis
  proof (cases "\<lfloor>x\<rfloor> = 0")
    case True
    then have "x - of_int \<lfloor>x\<rfloor> \<le> 0" using x by simp
    then show ?thesis using True by (simp add: py_round_def Let_def)
  next
    case False
    with f have "\<lfloor>x\<rfloor> + 1 \<le> 0" by linarith
    with f show ?thesis by (simp add: py_round_def Let_def)
  qed
qed

text \<open>
  C6: when the target rate is the signal's own rate, \<^verbatim>\<open>resample_acoular_ts\<close> returns
  the signal it was given, with the same frames and the same rate, whatever the
  resampling routine is; the routine is not called.
\<close>

theorem resample_same_rate:
  "resample_acoular_ts f ts (sample_freq ts) = Inr ts"
  by (simp add: resample_acoular_ts_def)

text \<open>
  The call on objects returns what the function on values returns, and it changes none of
  the objects that exist: it leaves the list as it is or appends one object to it.
\<close>

lemma resample_acoular_ts_obj_value:
  "resample_acoular_ts_obj f objs ts target_fs =
     (case resample_acoular_ts f (objs ! ts) target_fs of
        Inl e \<Rightarrow> (objs, Inl e)
      | Inr new \<Rightarrow>
          if sample_freq (objs ! ts) = target_fs then (objs, Inr ts)
          else (objs @ [new], Inr (length objs)))"
  by (simp add: resample_acoular_ts_obj_def resample_acoular_ts_def Let_def split: sum.split)

lemma resample_acoular_ts_obj_keeps:
  assumes "resample_acoular_ts_obj f objs ts target_fs = (objs', res)" and "k < length objs"
  shows "objs' ! k = objs ! k"
  using assms
  by (auto simp: resample_acoular_ts_obj_def Let_def nth_append split: if_splits sum.splits)

text \<open>
  C7, as amended: for a signal with at least one frame and a positive rate, and a
  positive target rate different from it for which \<open>round (len s * r / rate s)\<close> is at
  least 1, with a resampling routine of the documented shape, the call returns a new
  signal object at the target rate, whose frame count is exactly that rounded count and
  whose channel count is that of the input; channel \<open>j\<close> of its array is the routine's
  result on channel \<open>j\<close> of the input; and every object that existed before the call,
  the input signal among them, is as it was. The value of the new object is what
  \<^verbatim>\<open>resample_acoular_ts\<close> returns.
\<close>

theorem resample_frame_count:
  assumes shape: "resample_shape f"
    and obj: "ts < length objs"
    and wf: "wf_array (data (objs ! ts))" and frames: "0 < len (data (objs ! ts))"
    and pos: "0 < target_fs" and rate: "0 < sample_freq (objs ! ts)"
    and neq: "target_fs \<noteq> sample_freq (objs ! ts)"
    and count: "1 \<le> py_round (real (len (data (objs ! ts))) * target_fs / sample_freq (objs ! ts))"
  shows "\<exists>y. resample_acoular_ts_obj f objs ts target_fs =
               (objs @ [\<lparr>data = y, sample_freq = target_fs\<rparr>], Inr (length objs))
           \<and> resample_acoular_ts f (objs ! ts) target_fs = Inr \<lparr>data = y, sample_freq = target_fs\<rparr>
           \<and> int (len y) =
               py_round (real (len (data (objs ! ts))) * target_fs / sample_freq (objs ! ts))
           \<and> ncols y = ncols (data (objs ! ts)) \<and> wf_array y
           \<and> (\<forall>j<ncols (data (objs ! ts)).
                 f (channel j (data (objs ! ts)))
                   (py_round (real (len (data (objs ! ts))) * target_fs / sample_freq (objs ! ts)))
                 = Inr (channel j y))
           \<and> length objs \<noteq> ts
           \<and> (\<forall>k<length objs. (objs @ [\<lparr>data = y, sample_freq = target_fs\<rparr>]) ! k = objs ! k)"
proof -
  let ?x = "data (objs ! ts)"
  let ?n = "py_round (real (len ?x) * target_fs / sample_freq (objs ! ts))"
  obtain y where y: "f ?x ?n = Inr y" "int (len y) = ?n" "ncols y = ncols ?x" "wf_array y"
      "\<forall>j<ncols ?x. f (channel j ?x) ?n = Inr (channel j y)"
    using shape count frames wf unfolding resample_shape_def by blast
  have val: "resample_acoular_ts f (objs ! ts) target_fs = Inr \<lparr>data = y, sample_freq = target_fs\<rparr>"
    using neq rate y(1) by (simp add: resample_acoular_ts_def Let_def)
  have call: "resample_acoular_ts_obj f objs ts target_fs =
               (objs @ [\<lparr>data = y, sample_freq = target_fs\<rparr>], Inr (length objs))"
    using neq rate y(1) by (simp add: resample_acoular_ts_obj_def Let_def)
  have new: "length objs \<noteq> ts" using obj by simp
  have keep: "\<forall>k<length objs. (objs @ [\<lparr>data = y, sample_freq = target_fs\<rparr>]) ! k = objs ! k"
    by (simp add: nth_append)
  from call val y new keep show ?thesis by blast
qed

lemma hold_index: 
  fixes i n L :: nat
  assumes "i < n" and "0 < L"
  shows "i * L div n < L"
proof -
  have "i * L < n * L" using assms by simp
  then have "i * L < L * n" by (simp add: mult.commute)
  then show ?thesis by (rule less_mult_imp_div_less)
qed

lemma hold_resample_shape: "resample_shape hold_resample"
  unfolding resample_shape_def
proof (intro allI impI)
  fix x :: ndarray and num :: int
  assume h: "1 \<le> num \<and> 0 < len x \<and> wf_array x"
  let ?idx = "\<lambda>i. i * len x div nat num"
  let ?y = "\<lparr>ncols = ncols x, rows = map (\<lambda>i. rows x ! ?idx i) [0..<nat num]\<rparr>"
  have idx: "?idx i < len x" if "i < nat num" for i
    using hold_index [OF that] h by simp
  have run: "hold_resample x num = Inr ?y" using h by (simp add: hold_resample_def)
  have l: "int (len ?y) = num" using h by (simp add: len_def)
  have w: "wf_array ?y"
    using h idx by (auto simp: wf_array_def list_all_iff len_def)
  have ch: "hold_resample (channel j x) num = Inr (channel j ?y)" if "j < ncols x" for j
  proof -
    have "len (channel j x) = len x" by (simp add: channel_def len_def)
    moreover have "map (\<lambda>i. rows (channel j x) ! ?idx i) [0..<nat num]
        = map (\<lambda>r. [r ! j]) (map (\<lambda>i. rows x ! ?idx i) [0..<nat num])"
      using idx by (simp add: channel_def len_def)
    ultimately show ?thesis using h
      by (simp add: hold_resample_def) (simp add: channel_def)
  qed
  from run l w ch
  show "\<exists>y. hold_resample x num = Inr y \<and> int (len y) = num \<and> ncols y = ncols x \<and> wf_array y
          \<and> (\<forall>j<ncols x. hold_resample (channel j x) num = Inr (channel j y))"
    by (intro exI [of _ ?y]) simp
qed

lemma py_round_4: "py_round 4 = 4"
  by (simp add: py_round_def Let_def)

theorem resample_frame_count_witness:
  "resample_shape hold_resample \<and> (0::nat) < length [stereo_two]
   \<and> wf_array (data ([stereo_two] ! 0)) \<and> 0 < len (data ([stereo_two] ! 0))
   \<and> (0::real) < 32000 \<and> 0 < sample_freq ([stereo_two] ! 0)
   \<and> 32000 \<noteq> sample_freq ([stereo_two] ! 0)
   \<and> 1 \<le> py_round (real (len (data ([stereo_two] ! 0))) * 32000 / sample_freq ([stereo_two] ! 0))
   \<and> resample_acoular_ts_obj hold_resample [stereo_two] 0 32000 =
        ([stereo_two,
          \<lparr>data = \<lparr>ncols = 2, rows = [[1, 2], [1, 2], [3, 4], [3, 4]]\<rparr>, sample_freq = 32000\<rparr>],
         Inr 1)"
proof -
  have o: "(0::nat) < length [stereo_two]" by simp
  have w: "wf_array (data ([stereo_two] ! 0))" by (simp add: stereo_two_def wf_array_def)
  have fr: "0 < len (data ([stereo_two] ! 0))" by (simp add: stereo_two_def len_def)
  have p: "(0::real) < 32000" by simp
  have ra: "0 < sample_freq ([stereo_two] ! 0)" by (simp add: stereo_two_def)
  have ne: "32000 \<noteq> sample_freq ([stereo_two] ! 0)" by (simp add: stereo_two_def)
  have r: "py_round (real (len (data ([stereo_two] ! 0))) * 32000 / sample_freq ([stereo_two] ! 0)) = 4"
    by (simp add: stereo_two_def len_def py_round_4)
  have c: "1 \<le> py_round (real (len (data ([stereo_two] ! 0))) * 32000 / sample_freq ([stereo_two] ! 0))"
    unfolding r by simp
  obtain y where call: "resample_acoular_ts_obj hold_resample [stereo_two] 0 32000 =
               ([stereo_two] @ [\<lparr>data = y, sample_freq = 32000\<rparr>], Inr (length [stereo_two]))"
    and val: "resample_acoular_ts hold_resample ([stereo_two] ! 0) 32000
               = Inr \<lparr>data = y, sample_freq = 32000\<rparr>"
    using resample_frame_count [OF hold_resample_shape o w fr p ra ne c] by blast
  have "resample_acoular_ts hold_resample ([stereo_two] ! 0) 32000
      = Inr \<lparr>data = \<lparr>ncols = 2, rows = [[1, 2], [1, 2], [3, 4], [3, 4]]\<rparr>, sample_freq = 32000\<rparr>"
    by (simp add: resample_acoular_ts_def Let_def hold_resample_def stereo_two_def len_def
        py_round_4 upt_rec [of _ "numeral _"] upt_rec [of _ "Suc _"])
  with val have "y = \<lparr>ncols = 2, rows = [[1, 2], [1, 2], [3, 4], [3, 4]]\<rparr>" by simp
  with call hold_resample_shape o w fr p ra ne c show ?thesis by simp
qed

text \<open>
  The claim as worded fails when the rounded count is 0. One frame at 44100 Hz and the
  target rate 8000 give \<open>round (0.18) = 0\<close>, and no signal without frames comes back: a
  routine that rejects the count 0 makes the call fail, and a routine that answers the
  count 0 with one frame makes the result a signal of one frame.
\<close>

theorem resample_frame_count_counterexample:
  "py_round (real (len (data one_frame_44k)) * 8000 / sample_freq one_frame_44k) = 0
   \<and> resample_acoular_ts fill_resample one_frame_44k 8000 = Inl (Raised ValueError)
   \<and> resample_acoular_ts pad_resample one_frame_44k 8000 =
       Inr \<lparr>data = \<lparr>ncols = 1, rows = [[0]]\<rparr>, sample_freq = 8000\<rparr>"
proof -
  have r: "py_round (real (len (data one_frame_44k)) * 8000 / sample_freq one_frame_44k) = 0"
    by (simp add: one_frame_44k_def len_def py_round_def Let_def)
  show ?thesis
    unfolding resample_acoular_ts_def Let_def r
    by (simp add: one_frame_44k_def fill_resample_def pad_resample_def len_def)
qed

text \<open>
  C8, as amended: the script does not check the target rate. For a signal of positive
  rate and a target rate that is zero or negative, \<^verbatim>\<open>resample_acoular_ts\<close> hands the
  resampling routine the frame count \<open>round (len s * r / rate s)\<close>, which is zero or
  negative, and returns what that call returns: its exception, or its array labelled with
  the target rate. It never fails with \<open>InvalidRateError\<close>.
\<close>

theorem resample_no_rate_check:
  assumes "target_fs \<le> 0" and "0 < sample_freq ts"
  shows "py_round (real (len (data ts)) * target_fs / sample_freq ts) \<le> 0
     \<and> resample_acoular_ts f ts target_fs =
         (case f (data ts) (py_round (real (len (data ts)) * target_fs / sample_freq ts)) of
            Inl e \<Rightarrow> Inl (Raised e)
          | Inr y \<Rightarrow> Inr \<lparr>data = y, sample_freq = target_fs\<rparr>)
     \<and> resample_acoular_ts f ts target_fs \<noteq> Inl InvalidRateError"
proof -
  have "real (len (data ts)) * target_fs / sample_freq ts \<le> 0"
    using assms by (simp add: divide_nonpos_pos mult_nonneg_nonpos)
  then have n: "py_round (real (len (data ts)) * target_fs / sample_freq ts) \<le> 0"
    by (rule py_round_nonpos)
  have neq: "sample_freq ts \<noteq> target_fs" "sample_freq ts \<noteq> 0" using assms by simp_all
  have r: "resample_acoular_ts f ts target_fs =
         (case f (data ts) (py_round (real (len (data ts)) * target_fs / sample_freq ts)) of
            Inl e \<Rightarrow> Inl (Raised e)
          | Inr y \<Rightarrow> Inr \<lparr>data = y, sample_freq = target_fs\<rparr>)"
    using neq by (simp add: resample_acoular_ts_def Let_def)
  have "resample_acoular_ts f ts target_fs \<noteq> Inl InvalidRateError"
    unfolding r by (simp split: sum.split)
  with n r show ?thesis by blast
qed

theorem resample_no_rate_check_witness:
  "(- 8000 :: real) \<le> 0 \<and> 0 < sample_freq mono_8k
   \<and> resample_acoular_ts fill_resample mono_8k (- 8000) = Inl (Raised ValueError)"
proof -
  have h: "(- 8000 :: real) \<le> 0" "0 < sample_freq mono_8k" by (simp_all add: mono_8k_def)
  have r: "py_round (real (len (data mono_8k)) * (- 8000) / sample_freq mono_8k) = - 1"
    by (simp add: mono_8k_def len_def py_round_def Let_def floor_minus_one)
  show ?thesis
    using resample_no_rate_check [OF h, of fill_resample] h unfolding r
    by (simp add: fill_resample_def)
qed


text \<open>
  One frame at 8000 Hz and the target rate -8000: the frame count asked of the routine is
  -1, and the failure is the routine's \<open>ValueError\<close>.
\<close>

theorem resample_invalid_rate_counterexample:
  "resample_acoular_ts fill_resample mono_8k (- 8000) = Inl (Raised ValueError)
   \<and> resample_acoular_ts fill_resample mono_8k (- 8000) \<noteq> Inl InvalidRateError"
  by (simp add: resample_acoular_ts_def Let_def mono_8k_def len_def py_round_def fill_resample_def
      floor_minus_one)

section \<open>The direction of the peak\<close>

lemma first_max_index_iff:
  "first_max_index xs k \<longleftrightarrow>
     k < length xs \<and> (\<forall>n<length xs. xs ! n \<le> xs ! k) \<and> (\<forall>n<k. xs ! n < xs ! k)"
  by (simp add: first_max_index_def Ball_def)

lemma first_max_cell_iff:
  "first_max_cell Lm i j \<longleftrightarrow>
     i < len Lm \<and> j < ncols Lm \<and>
     (\<forall>i'<len Lm. \<forall>j'<ncols Lm.
        rows Lm ! i' ! j' \<le> rows Lm ! i ! j \<and>
        (i' < i \<or> (i' = i \<and> j' < j) \<longrightarrow> rows Lm ! i' ! j' < rows Lm ! i ! j))"
  by (simp add: first_max_cell_def Ball_def)

lemma argmax_scan_first_max:
  assumes "first_max_index pre best"
  shows "first_max_index (pre @ rest) (argmax_scan rest (length pre) best (pre ! best))"
  using assms
proof (induction rest arbitrary: pre best)
  case Nil
  then show ?case by simp
next
  case (Cons x rest)
  from Cons.prems have b: "best < length pre"
    and le: "\<forall>n<length pre. pre ! n \<le> pre ! best"
    and lt: "\<forall>n<best. pre ! n < pre ! best"
    by (simp_all add: first_max_index_iff)
  show ?case
  proof (cases "pre ! best < x")
    case True
    have "first_max_index (pre @ [x]) (length pre)"
      unfolding first_max_index_iff
    proof (intro conjI allI impI)
      show "length pre < length (pre @ [x])" by simp
    next
      fix n assume "n < length (pre @ [x])"
      then show "(pre @ [x]) ! n \<le> (pre @ [x]) ! length pre"
        using le True by (cases "n < length pre") (auto simp: nth_append intro: less_imp_le order_trans)
    next
      fix n assume "n < length pre"
      then show "(pre @ [x]) ! n < (pre @ [x]) ! length pre"
        using le True by (auto simp: nth_append intro: le_less_trans)
    qed
    from Cons.IH [OF this] True show ?thesis by simp
  next
    case False
    have "first_max_index (pre @ [x]) best"
      unfolding first_max_index_iff
    proof (intro conjI allI impI)
      show "best < length (pre @ [x])" using b by simp
    next
      fix n assume "n < length (pre @ [x])"
      then show "(pre @ [x]) ! n \<le> (pre @ [x]) ! best"
        using le False b by (cases "n < length pre") (auto simp: nth_append)
    next
      fix n assume "n < best"
      then show "(pre @ [x]) ! n < (pre @ [x]) ! best"
        using lt b by (auto simp: nth_append)
    qed
    from Cons.IH [OF this] False b show ?thesis by (simp add: nth_append)
  qed
qed

lemma np_argmax_first_max:
  assumes "xs \<noteq> []"
  shows "\<exists>k. np_argmax xs = Inr k \<and> first_max_index xs k"
proof -
  obtain x rest where xs: "xs = x # rest" using assms by (cases xs) auto
  have "first_max_index [x] 0" by (simp add: first_max_index_iff)
  from argmax_scan_first_max [OF this, of rest] show ?thesis by (simp add: xs)
qed

lemma concat_nth_rect:
  assumes "\<forall>r\<in>set rs. length r = c" and "i < length rs" and "j < c"
  shows "concat rs ! (i * c + j) = rs ! i ! j"
  using assms
proof (induction rs arbitrary: i)
  case Nil
  then show ?case by simp
next
  case (Cons r rs)
  have lr: "length r = c" using Cons.prems(1) by simp
  show ?case
  proof (cases i)
    case 0
    then show ?thesis using lr Cons.prems(3) by (simp add: nth_append)
  next
    case (Suc i')
    have "concat rs ! (i' * c + j) = rs ! i' ! j"
      using Cons.IH [of i'] Cons.prems Suc by simp
    then show ?thesis using lr Suc by (simp add: nth_append)
  qed
qed

lemma length_concat_rect:
  assumes "\<forall>r\<in>set rs. length r = c"
  shows "length (concat rs) = length rs * c"
  using assms by (induction rs) simp_all

lemma flat_index_less:
  fixes c :: nat
  assumes "i' < i \<or> (i' = i \<and> j' < j)" and "j' < c"
  shows "i' * c + j' < i * c + j"
proof (cases "i' < i")
  case True
  then have "Suc i' \<le> i" by simp
  then have "Suc i' * c \<le> i * c" by (rule mult_le_mono1)
  moreover have "i' * c + j' < Suc i' * c" using assms(2) by simp
  ultimately show ?thesis by linarith
next
  case False
  with assms(1) show ?thesis by simp
qed

lemma first_max_cell_of_index:
  assumes wf: "wf_array Lm" and c: "0 < ncols Lm"
    and k: "first_max_index (concat (rows Lm)) k"
  shows "first_max_cell Lm (k div ncols Lm) (k mod ncols Lm)"
proof -
  let ?c = "ncols Lm"
  let ?i = "k div ?c"
  let ?j = "k mod ?c"
  have rect: "\<forall>r\<in>set (rows Lm). length r = ?c"
    using wf by (simp add: wf_array_def list_all_iff)
  have lenf: "length (concat (rows Lm)) = len Lm * ?c"
    using length_concat_rect [OF rect] by (simp add: len_def)
  have kl: "k < len Lm * ?c" using k lenf by (simp add: first_max_index_iff)
  have i: "?i < len Lm" using kl c by (simp add: less_mult_imp_div_less)
  have j: "?j < ?c" using c by simp
  have keq: "?i * ?c + ?j = k" by simp
  have cell: "concat (rows Lm) ! (a * ?c + b) = rows Lm ! a ! b"
    if "a < len Lm" "b < ?c" for a b
    using concat_nth_rect [OF rect, of a b] that by (simp add: len_def)
  have top: "rows Lm ! ?i ! ?j = concat (rows Lm) ! k"
    using cell [OF i j] keq by simp
  show ?thesis
    unfolding first_max_cell_iff
  proof (intro conjI allI impI)
    show "?i < len Lm" by (rule i)
    show "?j < ?c" by (rule j)
  next
    fix a b assume a: "a < len Lm" and b: "b < ?c"
    have "a * ?c + b < Suc a * ?c" using b by simp
    also have "\<dots> \<le> len Lm * ?c" using a by (intro mult_le_mono1) simp
    finally have "a * ?c + b < length (concat (rows Lm))" using lenf by simp
    then have "concat (rows Lm) ! (a * ?c + b) \<le> concat (rows Lm) ! k"
      using k by (simp add: first_max_index_iff)
    then show "rows Lm ! a ! b \<le> rows Lm ! ?i ! ?j"
      using cell [OF a b] top by simp
  next
    fix a b assume a: "a < len Lm" and b: "b < ?c"
      and before: "a < ?i \<or> (a = ?i \<and> b < ?j)"
    have "a * ?c + b < ?i * ?c + ?j" using flat_index_less [OF before b] .
    then have "a * ?c + b < k" using keq by simp
    then have "concat (rows Lm) ! (a * ?c + b) < concat (rows Lm) ! k"
      using k by (simp add: first_max_index_iff)
    then show "rows Lm ! a ! b < rows Lm ! ?i ! ?j"
      using cell [OF a b] top by simp
  qed
qed

lemma first_max_cell_unique:
  assumes "first_max_cell Lm i j" and "first_max_cell Lm i' j'"
  shows "i' = i \<and> j' = j"
proof (rule ccontr)
  assume "\<not> (i' = i \<and> j' = j)"
  then consider "i' < i \<or> (i' = i \<and> j' < j)" | "i < i' \<or> (i = i' \<and> j < j')"
    by linarith
  then show False
  proof cases
    case 1
    have "rows Lm ! i' ! j' < rows Lm ! i ! j"
      using assms 1 unfolding first_max_cell_iff by blast
    moreover have "rows Lm ! i ! j \<le> rows Lm ! i' ! j'"
      using assms unfolding first_max_cell_iff by blast
    ultimately show False by simp
  next
    case 2
    have "rows Lm ! i ! j < rows Lm ! i' ! j'"
      using assms 2 unfolding first_max_cell_iff by blast
    moreover have "rows Lm ! i' ! j' \<le> rows Lm ! i ! j"
      using assms unfolding first_max_cell_iff by blast
    ultimately show False by simp
  qed
qed

lemma right_of_centre: "0 < int j - int (n div 2) \<longleftrightarrow> real n / 2 < real j"
proof -
  have "0 < int j - int (n div 2) \<longleftrightarrow> n div 2 < j" by linarith
  also have "\<dots> \<longleftrightarrow> n < 2 * j" by linarith
  also have "\<dots> \<longleftrightarrow> real n < 2 * real j"
    by (metis of_nat_less_iff of_nat_mult of_nat_numeral)
  also have "\<dots> \<longleftrightarrow> real n / 2 < real j" by linarith
  finally show ?thesis .
qed

text \<open>
  C5: when acoular returns a map \<open>Lm\<close> with at least one cell,
  \<^verbatim>\<open>beamform_and_detect_direction\<close> selects the cell of maximum value that comes first
  in row-major order (there is exactly one such cell), and returns
  \<open>left-to-right\<close> exactly when that cell's column index minus half the column count,
  rounded down, is positive, which is the same as the column index being greater than
  half the column count; in every other case, a peak at the centre column included, it
  returns \<open>right-to-left\<close>.
\<close>

theorem direction_of_peak:
  assumes geom: "MicGeom lib mic_array_geometry = Inr mg"
    and pm: "power_map lib test_ts mg grid ref_freq = Inr Lm"
    and wf: "wf_array Lm" and r: "0 < len Lm" and c: "0 < ncols Lm"
  shows "\<exists>i j. first_max_cell Lm i j
           \<and> (\<forall>i' j'. first_max_cell Lm i' j' \<longrightarrow> i' = i \<and> j' = j)
           \<and> beamform_and_detect_direction lib test_ts mic_array_geometry grid ref_freq
               = Inr (if 0 < int j - int (ncols Lm div 2) then ''left-to-right''
                      else ''right-to-left'')
           \<and> (0 < int j - int (ncols Lm div 2) \<longleftrightarrow> real (ncols Lm) / 2 < real j)"
proof -
  have rect: "\<forall>r\<in>set (rows Lm). length r = ncols Lm"
    using wf by (simp add: wf_array_def list_all_iff)
  have "length (concat (rows Lm)) = len Lm * ncols Lm"
    using length_concat_rect [OF rect] by (simp add: len_def)
  then have pos: "0 < length (concat (rows Lm))" using r c by simp
  have ne: "concat (rows Lm) \<noteq> []"
  proof
    assume "concat (rows Lm) = []"
    then have "length (concat (rows Lm)) = 0" by (simp only: list.size)
    with pos show False by linarith
  qed
  obtain k where k: "np_argmax (concat (rows Lm)) = Inr k"
    and fk: "first_max_index (concat (rows Lm)) k"
    using np_argmax_first_max [OF ne] by blast
  let ?i = "k div ncols Lm"
  let ?j = "k mod ncols Lm"
  have cell: "first_max_cell Lm ?i ?j" by (rule first_max_cell_of_index [OF wf c fk])
  have uniq: "\<forall>i' j'. first_max_cell Lm i' j' \<longrightarrow> i' = ?i \<and> j' = ?j"
    using first_max_cell_unique [OF cell] by blast
  have "beamform_and_detect_direction lib test_ts mic_array_geometry grid ref_freq
      = Inr (if 0 < int ?j - int (ncols Lm div 2) then ''left-to-right'' else ''right-to-left'')"
    using geom pm k
    by (simp add: beamform_and_detect_direction_def direction_of_map_def unravel_index_def Let_def)
  with cell uniq right_of_centre show ?thesis by blast
qed

theorem direction_of_peak_witness:
  "MicGeom (checking_acoular one_mic peak_map) ''4_linear.xml'' = Inr one_mic
   \<and> power_map (checking_acoular one_mic peak_map) mono_ref one_mic search_grid 8000 = Inr peak_map
   \<and> wf_array peak_map \<and> 0 < len peak_map \<and> 0 < ncols peak_map
   \<and> first_max_cell peak_map 0 1
   \<and> beamform_and_detect_direction (checking_acoular one_mic peak_map) mono_ref ''4_linear.xml''
        search_grid 8000 = Inr ''right-to-left''"
proof -
  have g: "MicGeom (checking_acoular one_mic peak_map) ''4_linear.xml'' = Inr one_mic"
    by (simp add: checking_acoular_def)
  have p: "power_map (checking_acoular one_mic peak_map) mono_ref one_mic search_grid 8000
      = Inr peak_map"
    by (simp add: checking_acoular_def one_mic_def mono_ref_def)
  have w: "wf_array peak_map" by (simp add: wf_array_def peak_map_def)
  have r: "0 < len peak_map" by (simp add: len_def peak_map_def)
  have c: "0 < ncols peak_map" by (simp add: peak_map_def)
  have cell: "first_max_cell peak_map 0 1"
    by (simp add: first_max_cell_iff peak_map_def len_def less_Suc_eq numeral_2_eq_2
        numeral_3_eq_3 all_conj_distrib)
  obtain i j where ij: "\<forall>i' j'. first_max_cell peak_map i' j' \<longrightarrow> i' = i \<and> j' = j"
    and res: "beamform_and_detect_direction (checking_acoular one_mic peak_map) mono_ref
        ''4_linear.xml'' search_grid 8000
      = Inr (if 0 < int j - int (ncols peak_map div 2) then ''left-to-right''
             else ''right-to-left'')"
    using direction_of_peak [OF g p w r c] by blast
  from ij cell have "j = 1" by blast
  with res have "beamform_and_detect_direction (checking_acoular one_mic peak_map) mono_ref
        ''4_linear.xml'' search_grid 8000 = Inr ''right-to-left''"
    by (simp add: peak_map_def)
  with g p w r c cell show ?thesis by simp
qed

section \<open>Channels and microphones\<close>

lemma direction_of_map_not_mismatch: "direction_of_map Lm \<noteq> Inl GeometryMismatchError"
  by (simp add: direction_of_map_def Let_def split: sum.split)

text \<open>
  C9, as amended: \<^verbatim>\<open>beamform_and_detect_direction\<close> does not compare the channel count
  of the signal with the number of microphones. When they differ it returns what the
  acoular computation returns: its exception, or the label of the map that it produced.
  It never fails with \<open>GeometryMismatchError\<close>.
\<close>

theorem beamform_no_geometry_check:
  assumes "MicGeom lib mic_array_geometry = Inr mg"
    and "length mg \<noteq> ncols (data test_ts)"
  shows "beamform_and_detect_direction lib test_ts mic_array_geometry grid ref_freq =
           (case power_map lib test_ts mg grid ref_freq of
              Inl e \<Rightarrow> Inl (Raised e)
            | Inr Lm \<Rightarrow> direction_of_map Lm)
         \<and> beamform_and_detect_direction lib test_ts mic_array_geometry grid ref_freq
             \<noteq> Inl GeometryMismatchError"
  using assms(1) direction_of_map_not_mismatch
  by (simp add: beamform_and_detect_direction_def split: sum.split)

theorem beamform_no_geometry_check_witness:
  "MicGeom (checking_acoular two_mics peak_map) ''4_linear.xml'' = Inr two_mics
   \<and> length two_mics \<noteq> ncols (data mono_ref)
   \<and> beamform_and_detect_direction (checking_acoular two_mics peak_map) mono_ref ''4_linear.xml''
        search_grid 8000 = Inl (Raised ValueError)"
proof -
  have g: "MicGeom (checking_acoular two_mics peak_map) ''4_linear.xml'' = Inr two_mics"
    by (simp add: checking_acoular_def)
  have n: "length two_mics \<noteq> ncols (data mono_ref)"
    by (simp add: two_mics_def mono_ref_def)
  show ?thesis
    using beamform_no_geometry_check [OF g n, of search_grid 8000] g n
    by (simp add: checking_acoular_def two_mics_def mono_ref_def)
qed

text \<open>
  A signal of two channels against a geometry of one microphone, with an acoular that
  rejects the mismatch: the failure is acoular's \<open>ValueError\<close>.
\<close>

theorem beamform_geometry_counterexample:
  "ncols (data stereo_two) = 2 \<and> length one_mic = 1
   \<and> beamform_and_detect_direction (checking_acoular one_mic peak_map) stereo_two ''4_linear.xml''
        search_grid 8000 = Inl (Raised ValueError)
   \<and> beamform_and_detect_direction (checking_acoular one_mic peak_map) stereo_two ''4_linear.xml''
        search_grid 8000 \<noteq> Inl GeometryMismatchError"
  by (simp add: beamform_and_detect_direction_def checking_acoular_def one_mic_def stereo_two_def)

section \<open>The report of the main function\<close>

lemma match_car_sound_returns: "\<exists>b. match_car_sound reference_ts test_ts threshold = Inr b"
proof -
  obtain c where c: "match_correlation reference_ts test_ts = Inr c"
    and ne: "concat (rows c) \<noteq> []"
    using match_correlation_returns by blast
  obtain p where "np_max_fl (map (\<lambda>x. np_divide x (Max (set (concat (rows c))))) (concat (rows c)))
      = Inr p"
    using ne by (cases "concat (rows c)") auto
  from match_car_sound_flat [OF c ne this] show ?thesis by blast
qed

text \<open>
  C10: in every run of \<^verbatim>\<open>main\<close> in which both files load, the resampling returns and,
  when the matcher returns true, the beamformer returns a label, the run ends with a
  report: the count of detections and the list of detection times are the last two
  things printed, also when there was no match. The count is 1 and the list holds the
  time of the clock exactly when the matcher returned true; otherwise the count is 0 and
  the list is empty. So the count is the length of the list, and it is 0 or 1. The
  matcher itself never raises.
\<close>

theorem main_reports:
  assumes sig: "main_signals w stationary_car_wav_file input_wav_file = Inr (reference_ts, test_ts)"
    and bf: "match_car_sound reference_ts test_ts (7 / 10) = Inr True \<longrightarrow>
       (\<exists>direction. beamform_and_detect_direction (acoular_lib w) test_ts mic_array_geometry
          search_grid 8000 = Inr direction)"
  shows "\<exists>matched rep.
           match_car_sound reference_ts test_ts (7 / 10) = Inr matched
         \<and> main w stationary_car_wav_file input_wav_file mic_array_geometry = Inr rep
         \<and> cars_detected rep = (if matched then 1 else 0)
         \<and> detection_times rep = (if matched then [now w] else [])
         \<and> cars_detected rep = length (detection_times rep)
         \<and> cars_detected rep \<le> 1
         \<and> (\<exists>before. printed rep =
               before @ [TotalCars (cars_detected rep), DetectionTimes (detection_times rep)])"
proof -
  obtain matched where m: "match_car_sound reference_ts test_ts (7 / 10) = Inr matched"
    using match_car_sound_returns by blast
  show ?thesis
  proof (cases matched)
    case True
    from m True have "match_car_sound reference_ts test_ts (7 / 10) = Inr True" by simp
    with bf obtain direction where
      d: "beamform_and_detect_direction (acoular_lib w) test_ts mic_array_geometry
            search_grid 8000 = Inr direction"
      by blast
    let ?rep = "\<lparr>cars_detected = 1, detection_times = [now w],
             printed = [CarDetected (basename w input_wav_file) direction,
                        TotalCars 1, DetectionTimes [now w]]\<rparr>"
    have run: "main w stationary_car_wav_file input_wav_file mic_array_geometry = Inr ?rep"
      using sig m d True by (simp add: main_def report_totals_def)
    show ?thesis
      by (rule exI [of _ matched], rule exI [of _ ?rep]) (use m run True in simp)
  next
    case False
    let ?rep = "\<lparr>cars_detected = 0, detection_times = [],
             printed = [TotalCars 0, DetectionTimes []]\<rparr>"
    have run: "main w stationary_car_wav_file input_wav_file mic_array_geometry = Inr ?rep"
      using sig m False by (simp add: main_def report_totals_def)
    show ?thesis
      by (rule exI [of _ matched], rule exI [of _ ?rep]) (use m run False in simp)
  qed
qed

lemma tone_signals: "main_signals tone_world ''ref.wav'' ''in.wav'' = Inr (mono_ref, mono_ref)"
  by (simp add: main_signals_def load_audio_from_wav_def tone_world_def mono_ref_def
      resample_acoular_ts_def)

lemma tone_match: "match_car_sound mono_ref mono_ref (7 / 10) = Inr True"
  by (simp add: match_car_sound_def normalized_max_def normalize_by_max_def
      match_correlation_def correlate_valid_def correlate_direct_def slice_to_def len_def
      corr_at_def dot_def np_divide_def Let_def mono_ref_def)

lemma tone_beam: "beamform_and_detect_direction (acoular_lib tone_world) mono_ref ''4_linear.xml''
     search_grid 8000 = Inr ''left-to-right''"
  by (simp add: beamform_and_detect_direction_def direction_of_map_def unravel_index_def
      tone_world_def checking_acoular_def one_mic_def right_map_def mono_ref_def len_def)

theorem main_reports_witness:
  "main_signals tone_world ''ref.wav'' ''in.wav'' = Inr (mono_ref, mono_ref)
   \<and> main tone_world ''ref.wav'' ''in.wav'' ''4_linear.xml'' =
       Inr \<lparr>cars_detected = 1, detection_times = [1730000000],
            printed = [CarDetected ''in.wav'' ''left-to-right'',
                       TotalCars 1, DetectionTimes [1730000000]]\<rparr>"
proof -
  have bf: "match_car_sound mono_ref mono_ref (7 / 10) = Inr True \<longrightarrow>
       (\<exists>direction. beamform_and_detect_direction (acoular_lib tone_world) mono_ref ''4_linear.xml''
          search_grid 8000 = Inr direction)"
    using tone_beam by blast
  obtain matched rep where
    m: "match_car_sound mono_ref mono_ref (7 / 10) = Inr matched"
    and r: "main tone_world ''ref.wav'' ''in.wav'' ''4_linear.xml'' = Inr rep"
    and cd: "cars_detected rep = (if matched then 1 else 0)"
    and dt: "detection_times rep = (if matched then [now tone_world] else [])"
    using main_reports [OF tone_signals bf] by blast
  from m tone_match have "matched" by simp
  have "main tone_world ''ref.wav'' ''in.wav'' ''4_linear.xml'' =
       Inr \<lparr>cars_detected = 1, detection_times = [1730000000],
            printed = [CarDetected ''in.wav'' ''left-to-right'',
                       TotalCars 1, DetectionTimes [1730000000]]\<rparr>"
    using tone_signals tone_match tone_beam
    by (simp add: main_def report_totals_def) (simp add: tone_world_def)
  with tone_signals show ?thesis by simp
qed

text \<open>A run on silence: no match, and the totals are still printed.\<close>

lemma main_silent_run:
  "main silent_world ''ref.wav'' ''in.wav'' ''4_linear.xml'' =
     Inr \<lparr>cars_detected = 0, detection_times = [],
          printed = [TotalCars 0, DetectionTimes []]\<rparr>"
  by (simp add: main_def main_signals_def load_audio_from_wav_def silent_world_def tone_world_def
      resample_acoular_ts_def report_totals_def match_car_sound_def normalized_max_def
      normalize_by_max_def match_correlation_def correlate_valid_def correlate_direct_def
      slice_to_def len_def corr_at_def dot_def np_divide_def Let_def)

end
